theory Spec2Isabelle
  imports Main "HOL-Library.Multiset"
begin

section \<open>Python values used by the handlers of app.py\<close>

text \<open>
  Strings are \<open>string\<close>; every \<open>char\<close> stands for one code point below 256. In that
  range the white space of \<open>str.strip()\<close> is the set below and the regular-expression
  class \<open>\d\<close> is the ten ASCII digits.
\<close>

datatype error = ValueError | TypeError | TemplateNotFound

record date =
  year :: nat
  month :: nat
  day :: nat

definition isspace :: "char \<Rightarrow> bool" where
  "isspace c = ((of_char c :: nat) \<in> set [9, 10, 11, 12, 13, 28, 29, 30, 31, 32, 133, 160])"

text \<open>\<open>str.strip()\<close>: leading and trailing white space removed.\<close>

definition strip :: "string \<Rightarrow> string" where
  "strip s = rev (dropWhile isspace (rev (dropWhile isspace s)))"

definition in_range :: "char \<Rightarrow> char \<Rightarrow> char \<Rightarrow> bool" where
  "in_range lo hi c = ((of_char lo :: nat) \<le> of_char c \<and> (of_char c :: nat) \<le> of_char hi)"

definition isdigit :: "char \<Rightarrow> bool" where
  "isdigit c = in_range (CHR ''0'') (CHR ''9'') c"

definition digit_val :: "char \<Rightarrow> nat" where
  "digit_val c = of_char c - 48"

text \<open>\<open>int(text)\<close> on a text of decimal digits with optional surrounding white space.\<close>

definition py_int :: "string \<Rightarrow> nat" where
  "py_int s = foldl (\<lambda>acc c. 10 * acc + digit_val c) 0 (strip s)"

subsection \<open>The regular expression of \<open>strptime\<close> for the format \<open>%Y-%m-%d\<close>\<close>

text \<open>
  \<open>_strptime\<close> turns the format into the regular expression
  \<^verbatim>\<open>(?P<Y>\d\d\d\d)-(?P<m>1[0-2]|0[1-9]|[1-9])-(?P<d>3[0-1]|[1-2]\d|0[1-9]|[1-9]| [1-9])\<close>
  and matches it at the start of the text. A matcher returns every way to match a prefix,
  as the pair of the matched text and the rest, in the order a backtracking matcher tries
  them; the match found is the first of the whole sequence.
\<close>

type_synonym matcher = "string \<Rightarrow> (string \<times> string) list"

fun cls :: "(char \<Rightarrow> bool) \<Rightarrow> matcher" where
  "cls P [] = []"
| "cls P (c # cs) = (if P c then [([c], cs)] else [])"

definition lit :: "char \<Rightarrow> matcher" where
  "lit x = cls (\<lambda>c. c = x)"

definition seq :: "matcher \<Rightarrow> matcher \<Rightarrow> matcher" where
  "seq a b s = concat (map (\<lambda>(x, r). map (\<lambda>(y, r'). (x @ y, r')) (b r)) (a s))"

definition alt :: "matcher \<Rightarrow> matcher \<Rightarrow> matcher" where
  "alt a b s = a s @ b s"

definition regex_Y :: matcher where
  "regex_Y = seq (cls isdigit) (seq (cls isdigit) (seq (cls isdigit) (cls isdigit)))"

definition regex_m :: matcher where
  "regex_m =
     alt (seq (lit (CHR ''1'')) (cls (in_range (CHR ''0'') (CHR ''2''))))
    (alt (seq (lit (CHR ''0'')) (cls (in_range (CHR ''1'') (CHR ''9''))))
         (cls (in_range (CHR ''1'') (CHR ''9''))))"

definition regex_d :: matcher where
  "regex_d =
     alt (seq (lit (CHR ''3'')) (cls (in_range (CHR ''0'') (CHR ''1''))))
    (alt (seq (cls (in_range (CHR ''1'') (CHR ''2''))) (cls isdigit))
    (alt (seq (lit (CHR ''0'')) (cls (in_range (CHR ''1'') (CHR ''9''))))
    (alt (cls (in_range (CHR ''1'') (CHR ''9'')))
         (seq (lit (CHR '' '')) (cls (in_range (CHR ''1'') (CHR ''9'')))))))"

text \<open>After the month, the second hyphen and the day group.\<close>

definition after_m :: "string \<Rightarrow> string \<Rightarrow> string \<Rightarrow> (string \<times> string \<times> string \<times> string) list" where
  "after_m Y m r3 =
     concat (map (\<lambda>(h, r4). map (\<lambda>(d, r5). (Y, m, d, r5)) (regex_d r4)) (lit (CHR ''-'') r3))"

text \<open>After the year, the first hyphen and the month group.\<close>

definition after_Y :: "string \<Rightarrow> string \<Rightarrow> (string \<times> string \<times> string \<times> string) list" where
  "after_Y Y r1 =
     concat (map (\<lambda>(h, r2). concat (map (\<lambda>(m, r3). after_m Y m r3) (regex_m r2)))
       (lit (CHR ''-'') r1))"

text \<open>\<open>format_regex.match(data_string)\<close>: the groups Y, m, d and the unconverted rest.\<close>

definition format_regex_match :: "string \<Rightarrow> (string \<times> string \<times> string \<times> string) option" where
  "format_regex_match s =
     (case concat (map (\<lambda>(Y, r1). after_Y Y r1) (regex_Y s)) of
        [] \<Rightarrow> None
      | g # _ \<Rightarrow> Some g)"

subsection \<open>Calendar dates\<close>

definition is_leap :: "nat \<Rightarrow> bool" where
  "is_leap y = (y mod 4 = 0 \<and> (y mod 100 \<noteq> 0 \<or> y mod 400 = 0))"

definition days_in_month :: "nat \<Rightarrow> nat \<Rightarrow> nat" where
  "days_in_month y m =
     (if m = 2 then (if is_leap y then 29 else 28)
      else if m = 4 \<or> m = 6 \<or> m = 9 \<or> m = 11 then 30 else 31)"

text \<open>The constructor \<open>datetime.date(year, month, day)\<close> with its range checks.\<close>

definition datetime_date :: "nat \<Rightarrow> nat \<Rightarrow> nat \<Rightarrow> error + date" where
  "datetime_date y m d =
     (if \<not> (1 \<le> y \<and> y \<le> 9999) then Inl ValueError
      else if \<not> (1 \<le> m \<and> m \<le> 12) then Inl ValueError
      else if \<not> (1 \<le> d \<and> d \<le> days_in_month y m) then Inl ValueError
      else Inr \<lparr>year = y, month = m, day = d\<rparr>)"

text \<open>\<open>datetime.strptime(value, "%Y-%m-%d").date()\<close>.\<close>

definition strptime_date :: "string \<Rightarrow> error + date" where
  "strptime_date s =
     (case format_regex_match s of
        None \<Rightarrow> Inl ValueError
      | Some (Y, m, d, rest) \<Rightarrow>
          if rest \<noteq> [] then Inl ValueError
          else datetime_date (py_int Y) (py_int m) (py_int d))"

subsection \<open>Helpers\<close>

text \<open>
  \<^verbatim>\<open>
  def parse_date(value: str) -> Optional[date]:
      if not value:
          return None
      try:
          return datetime.strptime(value, "%Y-%m-%d").date()
      except ValueError:
          return None
  \<close>
  Only \<open>ValueError\<close> is caught; any other error would reach the caller.
\<close>

definition parse_date :: "string \<Rightarrow> error + date option" where
  "parse_date v =
     (if v = [] then Inr None
      else case strptime_date v of
             Inr d \<Rightarrow> Inr (Some d)
           | Inl ValueError \<Rightarrow> Inr None
           | Inl e \<Rightarrow> Inl e)"

text \<open>\<open>str(d)\<close> of a date, the text \<open>YYYY-MM-DD\<close> with leading zeros.\<close>

definition digit_char :: "nat \<Rightarrow> char" where
  "digit_char k = char_of (48 + k)"

definition pad2 :: "nat \<Rightarrow> string" where
  "pad2 n = [digit_char (n div 10 mod 10), digit_char (n mod 10)]"

definition pad4 :: "nat \<Rightarrow> string" where
  "pad4 n = [digit_char (n div 1000 mod 10), digit_char (n div 100 mod 10),
             digit_char (n div 10 mod 10), digit_char (n mod 10)]"

definition isoformat :: "date \<Rightarrow> string" where
  "isoformat d = pad4 (year d) @ CHR ''-'' # pad2 (month d) @ CHR ''-'' # pad2 (day d)"

definition valid_date :: "date \<Rightarrow> bool" where
  "valid_date d = (datetime_date (year d) (month d) (day d) = Inr d)"

section \<open>Models: the four tables\<close>

record patient =
  id_p :: int
  first_name :: string
  last_name :: string
  date_of_birth :: "date option"
  sex :: "string option"
  phone :: "string option"

record visit =
  id_v :: int
  patient_id_v :: int
  visit_date :: "date option"
  reason :: "string option"
  notes_v :: "string option"

record medication =
  id_m :: int
  patient_id_m :: int
  name :: string
  dosage :: "string option"
  frequency :: "string option"

record allergy =
  id_a :: int
  patient_id_a :: int
  allergen :: string
  reaction :: "string option"
  severity :: "string option"

text \<open>The committed content of the database: the rows of each table in insertion order.\<close>

record store =
  patients :: "patient list"
  visits :: "visit list"
  medications :: "medication list"
  allergies :: "allergy list"

text \<open>\<open>Model.query.get(pk)\<close>: the row with that primary key, if any.\<close>

definition get_patient :: "store \<Rightarrow> int \<Rightarrow> patient option" where
  "get_patient s k = find (\<lambda>p. id_p p = k) (patients s)"

definition get_visit :: "store \<Rightarrow> int \<Rightarrow> visit option" where
  "get_visit s k = find (\<lambda>v. id_v v = k) (visits s)"

definition get_medication :: "store \<Rightarrow> int \<Rightarrow> medication option" where
  "get_medication s k = find (\<lambda>m. id_m m = k) (medications s)"

definition get_allergy :: "store \<Rightarrow> int \<Rightarrow> allergy option" where
  "get_allergy s k = find (\<lambda>a. id_a a = k) (allergies s)"

text \<open>The key of an inserted row: one more than the largest key of the table, 1 when empty.\<close>

definition next_id :: "int list \<Rightarrow> int" where
  "next_id ks = fold max ks 0 + 1"

section \<open>Requests and responses\<close>

datatype http_method = GET | POST

text \<open>\<open>request.form\<close>: the submitted fields; a lookup returns the first value of a key.\<close>

type_synonym form = "(string \<times> string) list"

definition form_get :: "form \<Rightarrow> string \<Rightarrow> string option" where
  "form_get f k = map_of f k"

definition form_get_default :: "form \<Rightarrow> string \<Rightarrow> string \<Rightarrow> string" where
  "form_get_default f k dflt = (case map_of f k of None \<Rightarrow> dflt | Some v \<Rightarrow> v)"

text \<open>
  Python's \<open>a or b\<close>: \<open>b\<close> when \<open>a\<close> is falsy. \<open>None\<close> and the empty string are falsy;
  a date is always truthy.
\<close>

definition or_none :: "string option \<Rightarrow> string option" where
  "or_none v = (case v of None \<Rightarrow> None | Some t \<Rightarrow> if t = [] then None else Some t)"

definition or_empty :: "string option \<Rightarrow> string" where
  "or_empty v = (case v of None \<Rightarrow> [] | Some t \<Rightarrow> t)"

definition or_str :: "string \<Rightarrow> string \<Rightarrow> string" where
  "or_str a b = (if a = [] then b else a)"

definition or_date :: "date option \<Rightarrow> date option \<Rightarrow> date option" where
  "or_date a b = (case a of None \<Rightarrow> b | Some d \<Rightarrow> Some d)"

text \<open>The targets of \<open>url_for\<close>, the rendered templates with their data, and the responses.\<close>

datatype endpoint = Index | NewPatient | PatientDetail int

datatype page =
    IndexPage "patient list"
  | PatientFormPage "patient option"
  | PatientDetailPage patient "visit list" "medication list" "allergy list"

text \<open>
  A redirect carries the messages flashed before it; \<open>Abort 404\<close> is \<open>abort(404)\<close> and a
  failed \<open>get_or_404\<close>; \<open>ServerError e\<close> is an exception that leaves the handler.
\<close>

datatype response =
    Redirect endpoint "string list"
  | Render page
  | Abort nat
  | ServerError error

section \<open>Templates\<close>

text \<open>
  \<open>INDEX_HTML\<close> receives the rows of
  \<open>Patient.query.order_by(Patient.last_name, Patient.first_name).all()\<close>. The database
  compares text byte by byte; the order of rows with equal keys is not fixed by the query
  and is the insertion order here.
\<close>

fun str_le :: "string \<Rightarrow> string \<Rightarrow> bool" where
  "str_le [] t = True"
| "str_le (c # cs) [] = False"
| "str_le (c # cs) (d # ds) =
     ((of_char c :: nat) < of_char d \<or> (c = d \<and> str_le cs ds))"

definition patient_le :: "patient \<Rightarrow> patient \<Rightarrow> bool" where
  "patient_le p q =
     (if last_name p = last_name q then str_le (first_name p) (first_name q)
      else str_le (last_name p) (last_name q))"

fun insert_row :: "patient \<Rightarrow> patient list \<Rightarrow> patient list" where
  "insert_row p [] = [p]"
| "insert_row p (q # qs) = (if patient_le p q then p # q # qs else q # insert_row p qs)"

definition order_by :: "patient list \<Rightarrow> patient list" where
  "order_by rows = foldr insert_row rows []"

text \<open>
  \<open>PATIENT_DETAIL_HTML\<close> has
  \<^verbatim>\<open>{% for v in patient.visits|sort(attribute='visit_date', reverse=True) %}\<close>.
  The filter is \<open>sorted(value, key=key_func, reverse=True)\<close>, where the key of a visit is
  the one-element list \<open>[v.visit_date]\<close>. \<open>sorted\<close> compares keys with \<open><\<close> only. On two
  such lists \<open><\<close> is false when the elements are equal, compares two dates, and raises
  \<open>TypeError\<close> when one element is \<open>None\<close> and the other a date. With \<open>reverse=True\<close>
  the result is descending and rows with equal keys keep their order.
\<close>

definition date_lt :: "date \<Rightarrow> date \<Rightarrow> bool" where
  "date_lt a b =
     (year a < year b \<or> (year a = year b \<and>
       (month a < month b \<or> (month a = month b \<and> day a < day b))))"

definition key_lt :: "date option \<Rightarrow> date option \<Rightarrow> error + bool" where
  "key_lt a b =
     (if a = b then Inr False
      else case (a, b) of
             (Some x, Some y) \<Rightarrow> Inr (date_lt x y)
           | _ \<Rightarrow> Inl TypeError)"

fun insert_desc :: "visit \<Rightarrow> visit list \<Rightarrow> error + visit list" where
  "insert_desc x [] = Inr [x]"
| "insert_desc x (y # ys) =
     (case key_lt (visit_date x) (visit_date y) of
        Inl e \<Rightarrow> Inl e
      | Inr True \<Rightarrow> (case insert_desc x ys of Inl e \<Rightarrow> Inl e | Inr zs \<Rightarrow> Inr (y # zs))
      | Inr False \<Rightarrow> Inr (x # y # ys))"

fun sort_visits :: "visit list \<Rightarrow> error + visit list" where
  "sort_visits [] = Inr []"
| "sort_visits (x # xs) =
     (case sort_visits xs of Inl e \<Rightarrow> Inl e | Inr ys \<Rightarrow> insert_desc x ys)"

text \<open>
  Every page template begins with \<^verbatim>\<open>{% extends "base" %}\<close>. Jinja resolves a literal
  template name through the loader of the environment, before it renders any block of the
  page, and raises \<open>TemplateNotFound\<close> when the loader has no template of that name. The
  views and the context processor \<open>inject_templates\<close> pass \<open>BASE_HTML\<close> as the context
  variable \<open>base\<close>, which the loader does not read. A loader is the set of names it finds.
\<close>

type_synonym loader = "string \<Rightarrow> bool"

definition get_template :: "loader \<Rightarrow> string \<Rightarrow> error + unit" where
  "get_template l n = (if l n then Inr () else Inl TemplateNotFound)"

text \<open>
  The loader of the application reads the folder \<open>templates\<close> beside \<open>app.py\<close>; the
  repository has none, so it finds no template.
\<close>

definition jinja_loader :: loader where
  "jinja_loader n = False"

text \<open>
  A loader that finds \<open>base\<close>, as the comment \<open>Map simple names for inline inheritance\<close>
  of \<open>app.py\<close> intends.
\<close>

definition loader_with_base :: loader where
  "loader_with_base n = (n = ''base'')"

text \<open>The three page templates, rendered in an environment with the loader \<open>l\<close>.\<close>

definition render_index :: "loader \<Rightarrow> patient list \<Rightarrow> error + page" where
  "render_index l rows =
     (case get_template l ''base'' of
        Inl e \<Rightarrow> Inl e
      | Inr u \<Rightarrow> Inr (IndexPage rows))"

definition render_patient_form :: "loader \<Rightarrow> patient option \<Rightarrow> error + page" where
  "render_patient_form l p =
     (case get_template l ''base'' of
        Inl e \<Rightarrow> Inl e
      | Inr u \<Rightarrow> Inr (PatientFormPage p))"

text \<open>The detail template sorts the visits only inside \<open>{% if patient.visits %}\<close>.\<close>

definition render_patient_detail ::
  "loader \<Rightarrow> patient \<Rightarrow> visit list \<Rightarrow> medication list \<Rightarrow> allergy list \<Rightarrow> error + page" where
  "render_patient_detail l p vs ms al =
     (case get_template l ''base'' of
        Inl e \<Rightarrow> Inl e
      | Inr u \<Rightarrow>
          (case (if vs = [] then Inr [] else sort_visits vs) of
             Inl e \<Rightarrow> Inl e
           | Inr svs \<Rightarrow> Inr (PatientDetailPage p svs ms al)))"

text \<open>
  A view that ends in \<open>return render_template_string(...)\<close> answers with the page, or
  with the exception that leaves the rendering; the store is as it was.
\<close>

definition respond :: "store \<Rightarrow> error + page \<Rightarrow> store \<times> response" where
  "respond s r = (case r of Inl e \<Rightarrow> (s, ServerError e) | Inr pg \<Rightarrow> (s, Render pg))"

section \<open>Routes\<close>

text \<open>
  A handler takes the committed store and returns the store after the request with the
  response. A handler that stops before \<open>db.session.commit()\<close> leaves the store as it was.
\<close>

definition index :: "store \<Rightarrow> store \<times> response" where
  "index s = respond s (render_index jinja_loader (order_by (patients s)))"

definition new_patient :: "http_method \<Rightarrow> form \<Rightarrow> store \<Rightarrow> store \<times> response" where
  "new_patient meth f s =
     (if meth = POST then
        (let fn = strip (form_get_default f ''first_name'' []);
             ln = strip (form_get_default f ''last_name'' [])
         in if fn = [] \<or> ln = [] then
              (s, Redirect NewPatient [''First and last name are required''])
            else
              (case parse_date (form_get_default f ''date_of_birth'' []) of
                 Inl e \<Rightarrow> (s, ServerError e)
               | Inr dob \<Rightarrow>
                   (let p = \<lparr>id_p = next_id (map id_p (patients s)),
                             first_name = fn,
                             last_name = ln,
                             date_of_birth = dob,
                             sex = or_none (form_get f ''sex''),
                             phone = or_none (form_get f ''phone'')\<rparr>
                    in (s\<lparr>patients := patients s @ [p]\<rparr>,
                        Redirect (PatientDetail (id_p p)) []))))
      else respond s (render_patient_form jinja_loader None))"

text \<open>The \<open>UPDATE\<close> of the row with the key of the edited object.\<close>

definition update_patient :: "patient \<Rightarrow> patient list \<Rightarrow> patient list" where
  "update_patient p' rows = map (\<lambda>p. if id_p p = id_p p' then p' else p) rows"

definition edit_patient :: "int \<Rightarrow> http_method \<Rightarrow> form \<Rightarrow> store \<Rightarrow> store \<times> response" where
  "edit_patient patient_id meth f s =
     (case get_patient s patient_id of
        None \<Rightarrow> (s, Abort 404)
      | Some p \<Rightarrow>
          if meth = POST then
            (case parse_date (form_get_default f ''date_of_birth'' []) of
               Inl e \<Rightarrow> (s, ServerError e)
             | Inr dob \<Rightarrow>
                 (let p' = p\<lparr>first_name := or_str (strip (form_get_default f ''first_name'' []))
                                              (first_name p),
                              last_name := or_str (strip (form_get_default f ''last_name'' []))
                                             (last_name p),
                              date_of_birth := or_date dob (date_of_birth p),
                              sex := or_none (form_get f ''sex''),
                              phone := or_none (form_get f ''phone'')\<rparr>
                  in (s\<lparr>patients := update_patient p' (patients s)\<rparr>,
                      Redirect (PatientDetail (id_p p)) [])))
          else respond s (render_patient_form jinja_loader (Some p)))"

text \<open>
  The relationships \<open>patient.visits\<close>, \<open>patient.medications\<close>, \<open>patient.allergies\<close>: the
  rows whose \<open>patient_id\<close> is the patient's key.
\<close>

definition visits_of :: "store \<Rightarrow> patient \<Rightarrow> visit list" where
  "visits_of s p = filter (\<lambda>v. patient_id_v v = id_p p) (visits s)"

definition medications_of :: "store \<Rightarrow> patient \<Rightarrow> medication list" where
  "medications_of s p = filter (\<lambda>m. patient_id_m m = id_p p) (medications s)"

definition allergies_of :: "store \<Rightarrow> patient \<Rightarrow> allergy list" where
  "allergies_of s p = filter (\<lambda>a. patient_id_a a = id_p p) (allergies s)"

definition patient_detail :: "int \<Rightarrow> store \<Rightarrow> store \<times> response" where
  "patient_detail patient_id s =
     (case get_patient s patient_id of
        None \<Rightarrow> (s, Abort 404)
      | Some p \<Rightarrow>
          respond s (render_patient_detail jinja_loader p
            (visits_of s p) (medications_of s p) (allergies_of s p)))"

text \<open>
  \<open>db.session.delete(patient)\<close>: the three relationships are declared with
  \<open>cascade="all, delete-orphan"\<close>, so the rows of each are deleted with the patient.
\<close>

definition delete_patient :: "int \<Rightarrow> store \<Rightarrow> store \<times> response" where
  "delete_patient patient_id s =
     (case get_patient s patient_id of
        None \<Rightarrow> (s, Abort 404)
      | Some p \<Rightarrow>
          (s\<lparr>patients := filter (\<lambda>q. id_p q \<noteq> id_p p) (patients s),
             visits := filter (\<lambda>v. patient_id_v v \<noteq> id_p p) (visits s),
             medications := filter (\<lambda>m. patient_id_m m \<noteq> id_p p) (medications s),
             allergies := filter (\<lambda>a. patient_id_a a \<noteq> id_p p) (allergies s)\<rparr>,
           Redirect Index []))"

subsection \<open>Visits\<close>

definition add_visit :: "int \<Rightarrow> form \<Rightarrow> store \<Rightarrow> store \<times> response" where
  "add_visit patient_id f s =
     (case get_patient s patient_id of
        None \<Rightarrow> (s, Abort 404)
      | Some p \<Rightarrow>
          (case parse_date (form_get_default f ''visit_date'' []) of
             Inl e \<Rightarrow> (s, ServerError e)
           | Inr vd \<Rightarrow>
               (let v = \<lparr>id_v = next_id (map id_v (visits s)),
                         patient_id_v = id_p p,
                         visit_date = vd,
                         reason = or_none (form_get f ''reason''),
                         notes_v = or_none (form_get f ''notes'')\<rparr>
                in (s\<lparr>visits := visits s @ [v]\<rparr>, Redirect (PatientDetail (id_p p)) []))))"

definition delete_visit :: "int \<Rightarrow> int \<Rightarrow> store \<Rightarrow> store \<times> response" where
  "delete_visit patient_id visit_id s =
     (case get_patient s patient_id of
        None \<Rightarrow> (s, Abort 404)
      | Some p \<Rightarrow>
          (case get_visit s visit_id of
             None \<Rightarrow> (s, Abort 404)
           | Some v \<Rightarrow>
               if patient_id_v v \<noteq> patient_id then (s, Abort 404)
               else (s\<lparr>visits := filter (\<lambda>w. id_v w \<noteq> id_v v) (visits s)\<rparr>,
                     Redirect (PatientDetail patient_id) [])))"

subsection \<open>Medications\<close>

definition add_medication :: "int \<Rightarrow> form \<Rightarrow> store \<Rightarrow> store \<times> response" where
  "add_medication patient_id f s =
     (case get_patient s patient_id of
        None \<Rightarrow> (s, Abort 404)
      | Some p \<Rightarrow>
          (let nm = strip (or_empty (form_get f ''name''))
           in if nm = [] then
                (s, Redirect (PatientDetail (id_p p)) [''Medication name is required''])
              else
                (let m = \<lparr>id_m = next_id (map id_m (medications s)),
                          patient_id_m = id_p p,
                          name = nm,
                          dosage = or_none (form_get f ''dosage''),
                          frequency = or_none (form_get f ''frequency'')\<rparr>
                 in (s\<lparr>medications := medications s @ [m]\<rparr>,
                     Redirect (PatientDetail (id_p p)) []))))"

definition delete_medication :: "int \<Rightarrow> int \<Rightarrow> store \<Rightarrow> store \<times> response" where
  "delete_medication patient_id medication_id s =
     (case get_patient s patient_id of
        None \<Rightarrow> (s, Abort 404)
      | Some p \<Rightarrow>
          (case get_medication s medication_id of
             None \<Rightarrow> (s, Abort 404)
           | Some m \<Rightarrow>
               if patient_id_m m \<noteq> patient_id then (s, Abort 404)
               else (s\<lparr>medications := filter (\<lambda>w. id_m w \<noteq> id_m m) (medications s)\<rparr>,
                     Redirect (PatientDetail patient_id) [])))"

subsection \<open>Allergies\<close>

definition add_allergy :: "int \<Rightarrow> form \<Rightarrow> store \<Rightarrow> store \<times> response" where
  "add_allergy patient_id f s =
     (case get_patient s patient_id of
        None \<Rightarrow> (s, Abort 404)
      | Some p \<Rightarrow>
          (let al = strip (or_empty (form_get f ''allergen''))
           in if al = [] then
                (s, Redirect (PatientDetail (id_p p)) [''Allergen is required''])
              else
                (let a = \<lparr>id_a = next_id (map id_a (allergies s)),
                          patient_id_a = id_p p,
                          allergen = al,
                          reaction = or_none (form_get f ''reaction''),
                          severity = or_none (form_get f ''severity'')\<rparr>
                 in (s\<lparr>allergies := allergies s @ [a]\<rparr>,
                     Redirect (PatientDetail (id_p p)) []))))"

definition delete_allergy :: "int \<Rightarrow> int \<Rightarrow> store \<Rightarrow> store \<times> response" where
  "delete_allergy patient_id allergy_id s =
     (case get_patient s patient_id of
        None \<Rightarrow> (s, Abort 404)
      | Some p \<Rightarrow>
          (case get_allergy s allergy_id of
             None \<Rightarrow> (s, Abort 404)
           | Some a \<Rightarrow>
               if patient_id_a a \<noteq> patient_id then (s, Abort 404)
               else (s\<lparr>allergies := filter (\<lambda>w. id_a w \<noteq> id_a a) (allergies s)\<rparr>,
                     Redirect (PatientDetail patient_id) [])))"

section \<open>Example data\<close>

definition ada :: patient where
  "ada = \<lparr>id_p = 7, first_name = ''Ada'', last_name = ''Lovelace'',
           date_of_birth = Some \<lparr>year = 1815, month = 12, day = 10\<rparr>,
           sex = Some ''F'', phone = Some ''555-0100''\<rparr>"

definition marie :: patient where
  "marie = \<lparr>id_p = 9, first_name = ''Marie'', last_name = ''Curie'',
             date_of_birth = None, sex = None, phone = None\<rparr>"

definition visit5 :: visit where
  "visit5 = \<lparr>id_v = 5, patient_id_v = 9,
              visit_date = Some \<lparr>year = 2024, month = 1, day = 5\<rparr>,
              reason = Some ''checkup'', notes_v = None\<rparr>"

definition visit6 :: visit where
  "visit6 = \<lparr>id_v = 6, patient_id_v = 7, visit_date = None,
              reason = Some ''walk-in'', notes_v = None\<rparr>"

definition visit8 :: visit where
  "visit8 = \<lparr>id_v = 8, patient_id_v = 7,
              visit_date = Some \<lparr>year = 2023, month = 11, day = 30\<rparr>,
              reason = None, notes_v = Some ''follow-up''\<rparr>"

definition med1 :: medication where
  "med1 = \<lparr>id_m = 1, patient_id_m = 7, name = ''aspirin'',
            dosage = Some ''100mg'', frequency = None\<rparr>"

definition med3 :: medication where
  "med3 = \<lparr>id_m = 3, patient_id_m = 9, name = ''ibuprofen'',
            dosage = None, frequency = Some ''daily''\<rparr>"

definition allergy2 :: allergy where
  "allergy2 = \<lparr>id_a = 2, patient_id_a = 7, allergen = ''pollen'',
                reaction = None, severity = None\<rparr>"

definition allergy4 :: allergy where
  "allergy4 = \<lparr>id_a = 4, patient_id_a = 9, allergen = ''latex'',
                reaction = Some ''rash'', severity = Some ''mild''\<rparr>"

text \<open>
  A clinic with two patients. Ada Lovelace (7) has two visits, one of them without a date,
  one medication and one allergy; Marie Curie (9) has one of each.
\<close>

definition clinic :: store where
  "clinic = \<lparr>patients = [ada, marie],
              visits = [visit5, visit6, visit8],
              medications = [med1, med3],
              allergies = [allergy2, allergy4]\<rparr>"

section \<open>Facts about the helpers and the tables\<close>

lemmas ex_defs = clinic_def ada_def marie_def visit5_def visit6_def visit8_def med1_def med3_def
  allergy2_def allergy4_def

lemmas get_defs = get_patient_def get_visit_def get_medication_def get_allergy_def

lemma get_patient_id: "get_patient s k = Some p \<Longrightarrow> id_p p = k"
  by (auto simp: get_patient_def find_Some_iff)

lemma strptime_date_error: "strptime_date v = Inl e \<Longrightarrow> e = ValueError"
  by (auto simp: strptime_date_def datetime_date_def split: option.splits if_splits prod.splits)

lemma parse_date_eq:
  "parse_date v = Inr (if v = [] then None
                       else case strptime_date v of Inl e \<Rightarrow> None | Inr d \<Rightarrow> Some d)"
  using strptime_date_error [of v]
  by (auto simp: parse_date_def split: sum.splits error.splits)

lemma find_update_patient:
  "find (\<lambda>q. id_p q = k) rows = Some p \<Longrightarrow> id_p p' = k \<Longrightarrow>
   find (\<lambda>q. id_p q = k) (update_patient p' rows) = Some p'"
  by (induction rows) (auto simp: update_patient_def)

lemma get_patient_after_delete:
  "find (\<lambda>q. id_p q = k) (filter (\<lambda>q. id_p q \<noteq> k) rows) = None"
  by (induction rows) auto

section \<open>Properties of the routes\<close>

text \<open>
  Claim C1. When the patient of the path exists and the visit, medication or allergy of the
  path exists but is owned by another patient, the delete handler answers not-found, the
  store is the one it received, and the child record is still there.
\<close>

theorem delete_child_wrong_owner_not_found:
  assumes "get_patient s patient_id = Some p"
  shows "(get_visit s vid = Some v \<and> patient_id_v v \<noteq> patient_id \<longrightarrow>
            delete_visit patient_id vid s = (s, Abort 404)
            \<and> get_visit (fst (delete_visit patient_id vid s)) vid = Some v)
       \<and> (get_medication s mid = Some m \<and> patient_id_m m \<noteq> patient_id \<longrightarrow>
            delete_medication patient_id mid s = (s, Abort 404)
            \<and> get_medication (fst (delete_medication patient_id mid s)) mid = Some m)
       \<and> (get_allergy s aid = Some a \<and> patient_id_a a \<noteq> patient_id \<longrightarrow>
            delete_allergy patient_id aid s = (s, Abort 404)
            \<and> get_allergy (fst (delete_allergy patient_id aid s)) aid = Some a)"
  using assms by (simp add: delete_visit_def delete_medication_def delete_allergy_def)

text \<open>The theorem at a concrete request.\<close>

theorem delete_child_wrong_owner_not_found_witness:
  "get_patient clinic 7 = Some ada
   \<and> get_visit clinic 5 = Some visit5 \<and> patient_id_v visit5 \<noteq> 7
   \<and> delete_visit 7 5 clinic = (clinic, Abort 404)
   \<and> get_medication clinic 3 = Some med3 \<and> patient_id_m med3 \<noteq> 7
   \<and> delete_medication 7 3 clinic = (clinic, Abort 404)
   \<and> get_allergy clinic 4 = Some allergy4 \<and> patient_id_a allergy4 \<noteq> 7
   \<and> delete_allergy 7 4 clinic = (clinic, Abort 404)"
  using delete_child_wrong_owner_not_found [of clinic 7 ada 5 visit5 3 med3 4 allergy4]
  by (simp add: get_defs ex_defs)

text \<open>
  Claim C2. A creation submission whose first or last name is empty after trimming leaves
  the store unchanged and redirects to the creation form with the validation message.
\<close>

theorem new_patient_blank_name_rejected:
  assumes "strip (form_get_default f ''first_name'' []) = []
         \<or> strip (form_get_default f ''last_name'' []) = []"
  shows "new_patient POST f s = (s, Redirect NewPatient [''First and last name are required''])"
  using assms by (auto simp: new_patient_def Let_def)

text \<open>The theorem at a concrete request.\<close>

theorem new_patient_blank_name_rejected_witness:
  "strip (form_get_default [(''first_name'', ''  ''), (''last_name'', ''Lovelace'')] ''first_name'' []) = []
   \<and> new_patient POST [(''first_name'', ''  ''), (''last_name'', ''Lovelace'')] clinic
       = (clinic, Redirect NewPatient [''First and last name are required''])"
  using new_patient_blank_name_rejected
    [of "[(''first_name'', ''  ''), (''last_name'', ''Lovelace'')]" clinic]
  by (simp add: form_get_default_def strip_def isspace_def)

text \<open>
  Claim C3. Deleting an existing patient removes the patient row and exactly the visits,
  medications and allergies owned by that patient; the rows of other patients stay, in
  their order, and the detail view of the deleted patient answers not-found.
\<close>

theorem delete_patient_cascades:
  assumes "get_patient s patient_id = Some p"
  shows "\<exists>s'. delete_patient patient_id s = (s', Redirect Index [])
           \<and> patients s' = filter (\<lambda>q. id_p q \<noteq> patient_id) (patients s)
           \<and> visits s' = filter (\<lambda>v. patient_id_v v \<noteq> patient_id) (visits s)
           \<and> medications s' = filter (\<lambda>m. patient_id_m m \<noteq> patient_id) (medications s)
           \<and> allergies s' = filter (\<lambda>a. patient_id_a a \<noteq> patient_id) (allergies s)
           \<and> get_patient s' patient_id = None
           \<and> patient_detail patient_id s' = (s', Abort 404)"
  using assms get_patient_id [OF assms]
  by (simp add: delete_patient_def patient_detail_def get_patient_def get_patient_after_delete)

text \<open>The theorem at a concrete request.\<close>

theorem delete_patient_cascades_witness:
  "get_patient clinic 7 = Some ada
   \<and> delete_patient 7 clinic
       = (\<lparr>patients = [marie], visits = [visit5], medications = [med3], allergies = [allergy4]\<rparr>,
          Redirect Index [])
   \<and> patient_detail 7 (fst (delete_patient 7 clinic)) = (fst (delete_patient 7 clinic), Abort 404)"
  using delete_patient_cascades [of clinic 7 ada]
  by (auto simp add: get_defs ex_defs)

text \<open>
  Claim C4. After an edit submission for an existing patient, the stored first name
  (last name) is the previous one when the submitted one is blank after trimming, and the
  stored date of birth is the previous one when the submitted text is empty or is rejected
  by \<open>strptime\<close>.
\<close>

theorem edit_patient_keeps_blank_fields:
  assumes "get_patient s patient_id = Some p"
  shows "\<exists>p'. get_patient (fst (edit_patient patient_id POST f s)) patient_id = Some p'
           \<and> (strip (form_get_default f ''first_name'' []) = [] \<longrightarrow> first_name p' = first_name p)
           \<and> (strip (form_get_default f ''last_name'' []) = [] \<longrightarrow> last_name p' = last_name p)
           \<and> (form_get_default f ''date_of_birth'' [] = []
                \<or> (\<exists>e. strptime_date (form_get_default f ''date_of_birth'' []) = Inl e)
              \<longrightarrow> date_of_birth p' = date_of_birth p)"
proof -
  let ?p' = "p\<lparr>first_name := or_str (strip (form_get_default f ''first_name'' [])) (first_name p),
               last_name := or_str (strip (form_get_default f ''last_name'' [])) (last_name p),
               date_of_birth := or_date
                 (if form_get_default f ''date_of_birth'' [] = [] then None
                  else case strptime_date (form_get_default f ''date_of_birth'' []) of
                         Inl e \<Rightarrow> None | Inr d \<Rightarrow> Some d) (date_of_birth p),
               sex := or_none (form_get f ''sex''),
               phone := or_none (form_get f ''phone'')\<rparr>"
  have k: "id_p p = patient_id" by (rule get_patient_id [OF assms])
  have "fst (edit_patient patient_id POST f s) = s\<lparr>patients := update_patient ?p' (patients s)\<rparr>"
    using assms by (simp add: edit_patient_def parse_date_eq Let_def)
  moreover have "find (\<lambda>q. id_p q = patient_id) (update_patient ?p' (patients s)) = Some ?p'"
    using assms k by (intro find_update_patient) (simp_all add: get_patient_def)
  ultimately have "get_patient (fst (edit_patient patient_id POST f s)) patient_id = Some ?p'"
    by (simp add: get_patient_def)
  moreover have "strip (form_get_default f ''first_name'' []) = [] \<longrightarrow> first_name ?p' = first_name p"
    by (simp add: or_str_def)
  moreover have "strip (form_get_default f ''last_name'' []) = [] \<longrightarrow> last_name ?p' = last_name p"
    by (simp add: or_str_def)
  moreover have "form_get_default f ''date_of_birth'' [] = []
                \<or> (\<exists>e. strptime_date (form_get_default f ''date_of_birth'' []) = Inl e)
              \<longrightarrow> date_of_birth ?p' = date_of_birth p"
    by (auto simp: or_date_def)
  ultimately show ?thesis by blast
qed

text \<open>The theorem at a concrete request.\<close>

theorem edit_patient_keeps_blank_fields_witness:
  "get_patient clinic 7 = Some ada
   \<and> strip (form_get_default [(''first_name'', ''Augusta''), (''last_name'', '' ''), (''date_of_birth'', ''10/12/1815'')] ''last_name'' []) = []
   \<and> strptime_date (form_get_default [(''first_name'', ''Augusta''), (''last_name'', '' ''), (''date_of_birth'', ''10/12/1815'')] ''date_of_birth'' []) = Inl ValueError
   \<and> (\<exists>p'. get_patient (fst (edit_patient 7 POST [(''first_name'', ''Augusta''), (''last_name'', '' ''), (''date_of_birth'', ''10/12/1815'')] clinic)) 7 = Some p'
         \<and> last_name p' = ''Lovelace''
         \<and> date_of_birth p' = Some \<lparr>year = 1815, month = 12, day = 10\<rparr>)"
proof -
  let ?f = "[(''first_name'', ''Augusta''), (''last_name'', '' ''), (''date_of_birth'', ''10/12/1815'')]"
  have a: "get_patient clinic 7 = Some ada" by (simp add: get_defs ex_defs)
  have b: "strip (form_get_default ?f ''last_name'' []) = []"
    by (simp add: form_get_default_def strip_def isspace_def)
  have c: "strptime_date (form_get_default ?f ''date_of_birth'' []) = Inl ValueError"
    by code_simp
  show ?thesis
    using edit_patient_keeps_blank_fields [OF a, of ?f] a b c
    by (auto simp: ada_def)
qed

text \<open>
  Claim C8. For an existing patient, a medication submission whose name is empty after
  trimming, and an allergy submission whose allergen is empty after trimming, leave the
  store unchanged and redirect to the patient's detail view with a validation message.
\<close>

theorem add_child_blank_required_rejected:
  assumes "get_patient s patient_id = Some p"
  shows "(strip (or_empty (form_get f ''name'')) = [] \<longrightarrow>
            add_medication patient_id f s
              = (s, Redirect (PatientDetail patient_id) [''Medication name is required'']))
       \<and> (strip (or_empty (form_get g ''allergen'')) = [] \<longrightarrow>
            add_allergy patient_id g s
              = (s, Redirect (PatientDetail patient_id) [''Allergen is required'']))"
  using assms get_patient_id [OF assms]
  by (simp add: add_medication_def add_allergy_def Let_def)

text \<open>The theorem at a concrete request.\<close>

theorem add_child_blank_required_rejected_witness:
  "get_patient clinic 7 = Some ada
   \<and> strip (or_empty (form_get [(''name'', '' ''), (''dosage'', ''5mg'')] ''name'')) = []
   \<and> add_medication 7 [(''name'', '' ''), (''dosage'', ''5mg'')] clinic
       = (clinic, Redirect (PatientDetail 7) [''Medication name is required''])
   \<and> strip (or_empty (form_get [(''reaction'', ''rash'')] ''allergen'')) = []
   \<and> add_allergy 7 [(''reaction'', ''rash'')] clinic
       = (clinic, Redirect (PatientDetail 7) [''Allergen is required''])"
  using add_child_blank_required_rejected
    [of clinic 7 ada "[(''name'', '' ''), (''dosage'', ''5mg'')]" "[(''reaction'', ''rash'')]"]
  by (simp add: get_defs ex_defs form_get_def or_empty_def strip_def isspace_def)

text \<open>
  Claim C9. A creation submission with non-empty names stores one new patient and
  redirects to its detail view, never an error. The stored date of birth is absent when
  the submitted text is empty or rejected by \<open>strptime\<close>; the stored sex and phone are
  absent when the submitted field is missing or empty, and never the empty string.
\<close>

theorem new_patient_blank_optionals_absent:
  assumes "strip (form_get_default f ''first_name'' []) \<noteq> []"
      and "strip (form_get_default f ''last_name'' []) \<noteq> []"
  shows "\<exists>p. new_patient POST f s
               = (s\<lparr>patients := patients s @ [p]\<rparr>, Redirect (PatientDetail (id_p p)) [])
           \<and> first_name p = strip (form_get_default f ''first_name'' [])
           \<and> last_name p = strip (form_get_default f ''last_name'' [])
           \<and> (form_get_default f ''date_of_birth'' [] = []
                \<or> (\<exists>e. strptime_date (form_get_default f ''date_of_birth'' []) = Inl e)
              \<longrightarrow> date_of_birth p = None)
           \<and> (or_empty (form_get f ''sex'') = [] \<longrightarrow> sex p = None)
           \<and> (or_empty (form_get f ''phone'') = [] \<longrightarrow> phone p = None)
           \<and> sex p \<noteq> Some [] \<and> phone p \<noteq> Some []"
  using assms
  by (auto simp: new_patient_def parse_date_eq Let_def or_none_def or_empty_def
           split: option.splits)

text \<open>The theorem at a concrete request.\<close>

theorem new_patient_blank_optionals_absent_witness:
  "strip (form_get_default [(''first_name'', ''Ada ''), (''last_name'', ''Lovelace''),
       (''date_of_birth'', ''1815-13-10''), (''sex'', [])] ''first_name'' []) \<noteq> []
   \<and> strip (form_get_default [(''first_name'', ''Ada ''), (''last_name'', ''Lovelace''),
       (''date_of_birth'', ''1815-13-10''), (''sex'', [])] ''last_name'' []) \<noteq> []
   \<and> strptime_date (form_get_default [(''first_name'', ''Ada ''), (''last_name'', ''Lovelace''),
       (''date_of_birth'', ''1815-13-10''), (''sex'', [])] ''date_of_birth'' [])
       = Inl ValueError
   \<and> or_empty (form_get [(''first_name'', ''Ada ''), (''last_name'', ''Lovelace''),
       (''date_of_birth'', ''1815-13-10''), (''sex'', [])] ''sex'') = []
   \<and> or_empty (form_get [(''first_name'', ''Ada ''), (''last_name'', ''Lovelace''),
       (''date_of_birth'', ''1815-13-10''), (''sex'', [])] ''phone'') = []
   \<and> (\<exists>p. new_patient POST [(''first_name'', ''Ada ''), (''last_name'', ''Lovelace''),
          (''date_of_birth'', ''1815-13-10''), (''sex'', [])] clinic
          = (clinic\<lparr>patients := patients clinic @ [p]\<rparr>, Redirect (PatientDetail (id_p p)) [])
        \<and> first_name p = ''Ada'' \<and> last_name p = ''Lovelace''
        \<and> date_of_birth p = None \<and> sex p = None \<and> phone p = None)"
proof -
  let ?f = "[(''first_name'', ''Ada ''), (''last_name'', ''Lovelace''),
       (''date_of_birth'', ''1815-13-10''), (''sex'', [])]"
  have a: "strip (form_get_default ?f ''first_name'' []) = ''Ada''"
    by (simp add: form_get_default_def strip_def isspace_def)
  have b: "strip (form_get_default ?f ''last_name'' []) = ''Lovelace''"
    by (simp add: form_get_default_def strip_def isspace_def)
  have c: "strptime_date (form_get_default ?f ''date_of_birth'' []) = Inl ValueError"
    by code_simp
  have d: "or_empty (form_get ?f ''sex'') = []" "or_empty (form_get ?f ''phone'') = []"
    by (simp_all add: form_get_def or_empty_def)
  have a': "strip (form_get_default ?f ''first_name'' []) \<noteq> []" using a by simp
  have b': "strip (form_get_default ?f ''last_name'' []) \<noteq> []" using b by simp
  from new_patient_blank_optionals_absent [OF a' b', of clinic]
  have "\<exists>p. new_patient POST ?f clinic
          = (clinic\<lparr>patients := patients clinic @ [p]\<rparr>, Redirect (PatientDetail (id_p p)) [])
        \<and> first_name p = ''Ada'' \<and> last_name p = ''Lovelace''
        \<and> date_of_birth p = None \<and> sex p = None \<and> phone p = None"
    unfolding a b using c d by blast
  then show ?thesis using a' b' c d by blast
qed

text \<open>
  Claim C10. An edit submission for an existing patient always overwrites sex and phone
  with the submitted value, absent when blank, whatever was stored; the first name, last
  name and date of birth keep the stored value when the submission is blank, so a stored
  name stays non-empty and a stored date of birth stays present.
\<close>

theorem edit_patient_overwrites_sex_phone:
  assumes "get_patient s patient_id = Some p"
  shows "\<exists>p'. get_patient (fst (edit_patient patient_id POST f s)) patient_id = Some p'
           \<and> sex p' = or_none (form_get f ''sex'')
           \<and> phone p' = or_none (form_get f ''phone'')
           \<and> (or_empty (form_get f ''sex'') = [] \<longrightarrow> sex p' = None)
           \<and> (or_empty (form_get f ''phone'') = [] \<longrightarrow> phone p' = None)
           \<and> (strip (form_get_default f ''first_name'' []) = [] \<longrightarrow> first_name p' = first_name p)
           \<and> (strip (form_get_default f ''last_name'' []) = [] \<longrightarrow> last_name p' = last_name p)
           \<and> (form_get_default f ''date_of_birth'' [] = [] \<longrightarrow> date_of_birth p' = date_of_birth p)
           \<and> (first_name p \<noteq> [] \<longrightarrow> first_name p' \<noteq> [])
           \<and> (last_name p \<noteq> [] \<longrightarrow> last_name p' \<noteq> [])
           \<and> (date_of_birth p \<noteq> None \<longrightarrow> date_of_birth p' \<noteq> None)"
proof -
  let ?p' = "p\<lparr>first_name := or_str (strip (form_get_default f ''first_name'' [])) (first_name p),
               last_name := or_str (strip (form_get_default f ''last_name'' [])) (last_name p),
               date_of_birth := or_date
                 (if form_get_default f ''date_of_birth'' [] = [] then None
                  else case strptime_date (form_get_default f ''date_of_birth'' []) of
                         Inl e \<Rightarrow> None | Inr d \<Rightarrow> Some d) (date_of_birth p),
               sex := or_none (form_get f ''sex''),
               phone := or_none (form_get f ''phone'')\<rparr>"
  have k: "id_p p = patient_id" by (rule get_patient_id [OF assms])
  have "fst (edit_patient patient_id POST f s) = s\<lparr>patients := update_patient ?p' (patients s)\<rparr>"
    using assms by (simp add: edit_patient_def parse_date_eq Let_def)
  moreover have "find (\<lambda>q. id_p q = patient_id) (update_patient ?p' (patients s)) = Some ?p'"
    using assms k by (intro find_update_patient) (simp_all add: get_patient_def)
  ultimately have g: "get_patient (fst (edit_patient patient_id POST f s)) patient_id = Some ?p'"
    by (simp add: get_patient_def)
  have "sex ?p' = or_none (form_get f ''sex'')" "phone ?p' = or_none (form_get f ''phone'')"
    by simp_all
  moreover have "or_empty (form_get f ''sex'') = [] \<longrightarrow> sex ?p' = None"
    "or_empty (form_get f ''phone'') = [] \<longrightarrow> phone ?p' = None"
    by (simp_all add: or_none_def or_empty_def split: option.splits)
  moreover have "strip (form_get_default f ''first_name'' []) = [] \<longrightarrow> first_name ?p' = first_name p"
    "strip (form_get_default f ''last_name'' []) = [] \<longrightarrow> last_name ?p' = last_name p"
    "first_name p \<noteq> [] \<longrightarrow> first_name ?p' \<noteq> []"
    "last_name p \<noteq> [] \<longrightarrow> last_name ?p' \<noteq> []"
    by (simp_all add: or_str_def)
  moreover have "form_get_default f ''date_of_birth'' [] = [] \<longrightarrow> date_of_birth ?p' = date_of_birth p"
    "date_of_birth p \<noteq> None \<longrightarrow> date_of_birth ?p' \<noteq> None"
    by (auto simp: or_date_def split: option.splits sum.splits)
  ultimately show ?thesis using g by blast
qed

text \<open>The theorem at a concrete request.\<close>

theorem edit_patient_overwrites_sex_phone_witness:
  "get_patient clinic 7 = Some ada
   \<and> or_empty (form_get [(''first_name'', []), (''last_name'', '' ''), (''date_of_birth'', []), (''sex'', [])] ''sex'') = []
   \<and> or_empty (form_get [(''first_name'', []), (''last_name'', '' ''), (''date_of_birth'', []), (''sex'', [])] ''phone'') = []
   \<and> sex ada = Some ''F'' \<and> phone ada = Some ''555-0100''
   \<and> get_patient (fst (edit_patient 7 POST [(''first_name'', []), (''last_name'', '' ''), (''date_of_birth'', []), (''sex'', [])] clinic)) 7
       = Some (ada\<lparr>sex := None, phone := None\<rparr>)"
proof -
  let ?f = "[(''first_name'', []), (''last_name'', '' ''), (''date_of_birth'', []), (''sex'', [])]"
  have a: "get_patient clinic 7 = Some ada" by (simp add: get_defs ex_defs)
  have b: "or_empty (form_get ?f ''sex'') = []" "or_empty (form_get ?f ''phone'') = []"
    by (simp_all add: form_get_def or_empty_def)
  have c: "strip (form_get_default ?f ''first_name'' []) = []"
    "strip (form_get_default ?f ''last_name'' []) = []"
    "form_get_default ?f ''date_of_birth'' [] = []"
    by (simp_all add: form_get_default_def strip_def isspace_def)
  from edit_patient_overwrites_sex_phone [OF a, of ?f] b c
  obtain p' where p': "get_patient (fst (edit_patient 7 POST ?f clinic)) 7 = Some p'"
    "sex p' = None" "phone p' = None" "first_name p' = first_name ada"
    "last_name p' = last_name ada" "date_of_birth p' = date_of_birth ada"
    by auto
  have "id_p p' = 7" using p'(1) by (rule get_patient_id)
  then have "p' = ada\<lparr>sex := None, phone := None\<rparr>"
    using p' by (simp add: ada_def)
  then show ?thesis using a b p'(1) by (simp add: ada_def)
qed

subsection \<open>The order of the patient list\<close>

text \<open>The byte-wise comparison is a total order, and so is the comparison of two rows.\<close>

lemma str_le_refl: "str_le a a"
  by (induction a) auto

lemma str_le_total: "\<not> str_le a b \<Longrightarrow> str_le b a"
  by (induction a b rule: str_le.induct) auto

lemma str_le_antisym: "str_le a b \<Longrightarrow> str_le b a \<Longrightarrow> a = b"
proof (induction a b rule: str_le.induct)
  case (1 t)
  then show ?case by (cases t) auto
next
  case (2 c cs)
  then show ?case by simp
next
  case (3 c cs d ds)
  then show ?case by auto
qed

lemma str_le_trans: "str_le a b \<Longrightarrow> str_le b c \<Longrightarrow> str_le a c"
proof (induction a b arbitrary: c rule: str_le.induct)
  case (1 t)
  then show ?case by simp
next
  case (2 x xs)
  then show ?case by simp
next
  case (3 x xs y ys)
  then show ?case by (cases c) auto
qed

lemma patient_le_total: "\<not> patient_le p q \<Longrightarrow> patient_le q p"
  by (auto simp: patient_le_def dest: str_le_total split: if_splits)

lemma patient_le_trans:
  assumes "patient_le p q" and "patient_le q r"
  shows "patient_le p r"
proof (cases "last_name p = last_name r")
  case True
  show ?thesis
  proof (cases "last_name p = last_name q")
    case same: True
    with True assms show ?thesis by (auto simp: patient_le_def intro: str_le_trans)
  next
    case False
    with True assms have "str_le (last_name p) (last_name q)" "str_le (last_name q) (last_name p)"
      by (auto simp: patient_le_def split: if_splits)
    with False show ?thesis using str_le_antisym by blast
  qed
next
  case False
  with assms have "str_le (last_name p) (last_name r)"
    by (auto simp: patient_le_def split: if_splits intro: str_le_trans)
  with False show ?thesis by (simp add: patient_le_def)
qed

lemma mset_insert_row: "mset (insert_row p qs) = add_mset p (mset qs)"
  by (induction qs) auto

lemma set_insert_row: "set (insert_row p qs) = insert p (set qs)"
  by (induction qs) auto

lemma sorted_insert_row:
  "sorted_wrt patient_le qs \<Longrightarrow> sorted_wrt patient_le (insert_row p qs)"
proof (induction qs)
  case Nil
  then show ?case by simp
next
  case (Cons q qs)
  show ?case
  proof (cases "patient_le p q")
    case True
    with Cons.prems show ?thesis by (auto intro: patient_le_trans)
  next
    case False
    then have "patient_le q p" by (rule patient_le_total)
    with False Cons show ?thesis by (auto simp: set_insert_row)
  qed
qed

lemma mset_order_by: "mset (order_by rows) = mset rows"
  by (induction rows) (auto simp: order_by_def mset_insert_row)

lemma sorted_order_by: "sorted_wrt patient_le (order_by rows)"
  by (induction rows) (auto simp: order_by_def sorted_insert_row)

text \<open>
  The rows the list view fetches are all the patients, each once, in ascending order of
  last name and, among equal last names, in ascending order of first name.
\<close>

lemma order_by_all_sorted:
  "mset (order_by rows) = mset rows
   \<and> (\<forall>i j. i < j \<and> j < length (order_by rows) \<longrightarrow>
         str_le (last_name (order_by rows ! i)) (last_name (order_by rows ! j))
         \<and> (last_name (order_by rows ! i) = last_name (order_by rows ! j) \<longrightarrow>
              str_le (first_name (order_by rows ! i)) (first_name (order_by rows ! j))))"
proof -
  let ?rows = "order_by rows"
  have "str_le (last_name (?rows ! i)) (last_name (?rows ! j))
        \<and> (last_name (?rows ! i) = last_name (?rows ! j) \<longrightarrow>
             str_le (first_name (?rows ! i)) (first_name (?rows ! j)))"
    if "i < j" and "j < length ?rows" for i j
  proof -
    have "patient_le (?rows ! i) (?rows ! j)"
      using sorted_order_by [of rows] that by (simp add: sorted_wrt_iff_nth_less)
    then show ?thesis
      by (cases "last_name (?rows ! i) = last_name (?rows ! j)")
         (simp_all add: patient_le_def str_le_refl)
  qed
  then show ?thesis
    using mset_order_by [of rows] by simp
qed

text \<open>
  With the loader of the application no page template can be rendered: the list view
  answers with \<open>TemplateNotFound\<close> in every store. With a loader that finds \<open>base\<close> the
  list template shows the rows it is given.
\<close>

lemma index_never_renders: "index s = (s, ServerError TemplateNotFound)"
  by (simp add: index_def respond_def render_index_def get_template_def jinja_loader_def)

lemma render_index_with_base: "render_index loader_with_base rows = Inr (IndexPage rows)"
  by (simp add: render_index_def get_template_def loader_with_base_def)

text \<open>
  Claim C7. The claim says that in every store the patient list operation returns all
  patients ordered by last name, then first name. On the example clinic the list view
  fetches Curie, Marie before Lovelace, Ada, and the list template would show them in that
  order if \<open>base\<close> were found; the view itself ends in \<open>TemplateNotFound\<close> instead of a
  page.
\<close>

theorem index_template_not_found:
  "index clinic = (clinic, ServerError TemplateNotFound)
   \<and> order_by (patients clinic) = [marie, ada]
   \<and> render_index loader_with_base (order_by (patients clinic)) = Inr (IndexPage [marie, ada])"
proof -
  have "order_by (patients clinic) = [marie, ada]"
    by (simp add: order_by_def patient_le_def ex_defs)
  then show ?thesis
    by (simp add: index_never_renders render_index_with_base)
qed

subsection \<open>The date-parsing helper\<close>

text \<open>
  The text of a valid date, as \<open>str(d)\<close> writes it, is read back by \<open>strptime\<close>: the
  digits of each group are converted to the number they were written from.
\<close>

lemma of_char_digit_char: "k < 10 \<Longrightarrow> (of_char (digit_char k) :: nat) = 48 + k"
  unfolding digit_char_def by (simp only: of_char_of) simp

lemma isdigit_digit_char: "k < 10 \<Longrightarrow> isdigit (digit_char k)"
  by (simp add: isdigit_def in_range_def of_char_digit_char)

lemma isspace_digit_char: "k < 10 \<Longrightarrow> \<not> isspace (digit_char k)"
  by (simp add: isspace_def of_char_digit_char)

lemma digit_val_digit_char: "k < 10 \<Longrightarrow> digit_val (digit_char k) = k"
  by (simp add: digit_val_def of_char_digit_char)

lemma strip_no_space:
  "\<not> isspace a \<Longrightarrow> \<not> isspace b \<Longrightarrow> strip (a # cs @ [b]) = a # cs @ [b]"
  by (simp add: strip_def)

lemma two_digits: "n < 100 \<Longrightarrow> 10 * (n div 10 mod 10) + n mod 10 = (n::nat)"
proof -
  assume "n < 100"
  then have "n div 10 < 10" by simp
  then have "n div 10 mod 10 = n div 10" by simp
  then show ?thesis by simp
qed

lemma four_digits:
  assumes "n < 10000"
  shows "10 * (10 * (10 * (n div 1000 mod 10) + n div 100 mod 10) + n div 10 mod 10) + n mod 10
         = (n::nat)"
proof -
  have b: "n div 1000 = n div 100 div 10" by (simp add: div_mult2_eq [symmetric])
  have c: "n div 100 = n div 10 div 10" by (simp add: div_mult2_eq [symmetric])
  have "n div 100 < 100" using assms by simp
  then have "10 * (n div 100 div 10 mod 10) + n div 100 mod 10 = n div 100"
    by (rule two_digits)
  then have "10 * (n div 1000 mod 10) + n div 100 mod 10 = n div 100"
    by (simp only: b)
  moreover have "10 * (n div 100) + n div 10 mod 10 = n div 10"
    by (simp only: c) simp
  ultimately show ?thesis by simp
qed

lemma py_int_pad2: "n < 100 \<Longrightarrow> py_int (pad2 n) = n"
proof -
  assume n: "n < 100"
  have s: "strip (pad2 n) = pad2 n"
    using strip_no_space [of "digit_char (n div 10 mod 10)" "digit_char (n mod 10)" "[]"]
    by (simp add: pad2_def isspace_digit_char)
  have "py_int (pad2 n) = 10 * (n div 10 mod 10) + n mod 10"
    unfolding py_int_def s by (simp add: pad2_def digit_val_digit_char)
  also have "\<dots> = n" by (rule two_digits [OF n])
  finally show ?thesis .
qed

lemma py_int_pad4: "n < 10000 \<Longrightarrow> py_int (pad4 n) = n"
proof -
  assume n: "n < 10000"
  have s: "strip (pad4 n) = pad4 n"
    using strip_no_space [of "digit_char (n div 1000 mod 10)" "digit_char (n mod 10)"
        "[digit_char (n div 100 mod 10), digit_char (n div 10 mod 10)]"]
    by (simp add: pad4_def isspace_digit_char)
  have "py_int (pad4 n)
        = 10 * (10 * (10 * (n div 1000 mod 10) + n div 100 mod 10) + n div 10 mod 10) + n mod 10"
    unfolding py_int_def s by (simp add: pad4_def digit_val_digit_char)
  also have "\<dots> = n" by (rule four_digits [OF n])
  finally show ?thesis .
qed

lemma regex_Y_pad4: "regex_Y (pad4 y @ r) = [(pad4 y, r)]"
  by (simp add: regex_Y_def seq_def pad4_def isdigit_digit_char)



lemma digit_char_eq_iff: "k < 10 \<Longrightarrow> (digit_char k = c) = ((of_char c :: nat) = 48 + k)"
proof
  assume "k < 10" "digit_char k = c"
  then show "(of_char c :: nat) = 48 + k" using of_char_digit_char by blast
next
  assume "k < 10" and c: "(of_char c :: nat) = 48 + k"
  have "digit_char k = char_of (of_char c :: nat)" unfolding digit_char_def c ..
  then show "digit_char k = c" by simp
qed

lemma month_values: "1 \<le> m \<Longrightarrow> m \<le> 12 \<Longrightarrow> m = 1 \<or> m = 2 \<or> m = 3 \<or> m = 4 \<or> m = 5 \<or> m = 6 \<or> m = 7 \<or> m = 8 \<or> m = 9 \<or> m = 10 \<or> m = 11 \<or> m = 12"
  for m :: nat
  by arith

lemma day_values: "1 \<le> d \<Longrightarrow> d \<le> 31 \<Longrightarrow> d = 1 \<or> d = 2 \<or> d = 3 \<or> d = 4 \<or> d = 5 \<or> d = 6 \<or> d = 7 \<or> d = 8 \<or> d = 9 \<or> d = 10 \<or> d = 11 \<or> d = 12 \<or> d = 13 \<or> d = 14 \<or> d = 15 \<or> d = 16 \<or> d = 17 \<or> d = 18 \<or> d = 19 \<or> d = 20 \<or> d = 21 \<or> d = 22 \<or> d = 23 \<or> d = 24 \<or> d = 25 \<or> d = 26 \<or> d = 27 \<or> d = 28 \<or> d = 29 \<or> d = 30 \<or> d = 31"
  for d :: nat
  by arith


lemmas digit_simps = pad2_def regex_m_def regex_d_def alt_def seq_def lit_def in_range_def
  isdigit_def after_m_def digit_char_eq_iff of_char_digit_char

lemma regex_m_pad2:
  assumes "1 \<le> m" "m \<le> 12"
  shows "concat (map (\<lambda>(mm, r3). after_m Y mm r3) (regex_m (pad2 m @ CHR ''-'' # r)))
         = after_m Y (pad2 m) (CHR ''-'' # r)"
  using month_values [OF assms]
  by (elim disjE) (simp_all add: digit_simps)


lemma after_m_pad2:
  assumes "1 \<le> d" "d \<le> 31"
  shows "\<exists>rest. after_m Y m (CHR ''-'' # pad2 d) = (Y, m, pad2 d, []) # rest"
  using day_values [OF assms]
  by (elim disjE) (simp_all add: digit_simps)

lemma format_regex_match_isoformat:
  assumes "1 \<le> month d" "month d \<le> 12" "1 \<le> day d" "day d \<le> 31"
  shows "format_regex_match (isoformat d)
           = Some (pad4 (year d), pad2 (month d), pad2 (day d), [])"
proof -
  obtain rest where
    "after_m (pad4 (year d)) (pad2 (month d)) (CHR ''-'' # pad2 (day d))
       = (pad4 (year d), pad2 (month d), pad2 (day d), []) # rest"
    using after_m_pad2 [OF assms(3) assms(4)] by blast
  then have "after_Y (pad4 (year d)) (CHR ''-'' # pad2 (month d) @ CHR ''-'' # pad2 (day d))
       = (pad4 (year d), pad2 (month d), pad2 (day d), []) # rest"
    unfolding after_Y_def using regex_m_pad2 [OF assms(1) assms(2)] by (simp add: lit_def)
  then show ?thesis
    by (simp add: format_regex_match_def isoformat_def regex_Y_pad4)
qed

lemma strptime_date_isoformat:
  assumes "valid_date d"
  shows "strptime_date (isoformat d) = Inr d"
proof -
  from assms have r: "1 \<le> year d" "year d \<le> 9999" "1 \<le> month d" "month d \<le> 12"
    "1 \<le> day d" "day d \<le> days_in_month (year d) (month d)"
    by (auto simp: valid_date_def datetime_date_def split: if_splits)
  have "days_in_month (year d) (month d) \<le> 31" by (simp add: days_in_month_def)
  with r have d31: "day d \<le> 31" by simp
  have "format_regex_match (isoformat d)
               = Some (pad4 (year d), pad2 (month d), pad2 (day d), [])"
    by (rule format_regex_match_isoformat [OF r(3) r(4) r(5) d31])
  moreover have "py_int (pad4 (year d)) = year d" using r by (intro py_int_pad4) simp
  moreover have "py_int (pad2 (month d)) = month d" using r by (intro py_int_pad2) simp
  moreover have "py_int (pad2 (day d)) = day d" using d31 by (intro py_int_pad2) simp
  ultimately show ?thesis using assms by (simp add: strptime_date_def valid_date_def)
qed

text \<open>
  Claim C6. \<open>parse_date\<close> returns a value for every text and never lets an error reach
  its caller. It returns absent for the empty text and for every text \<open>strptime\<close>
  rejects, the parsed date for every other text, and for the text \<open>YYYY-MM-DD\<close> of a
  valid calendar date it returns that date.
\<close>

theorem parse_date_total:
  "(\<exists>r. parse_date v = Inr r)
   \<and> parse_date [] = Inr None
   \<and> (strptime_date v = Inl e \<longrightarrow> parse_date v = Inr None)
   \<and> (w \<noteq> [] \<and> strptime_date w = Inr d \<longrightarrow> parse_date w = Inr (Some d))
   \<and> (valid_date d' \<longrightarrow> parse_date (isoformat d') = Inr (Some d'))"
proof -
  have "isoformat d' \<noteq> []" by (simp add: isoformat_def)
  then have "valid_date d' \<longrightarrow> parse_date (isoformat d') = Inr (Some d')"
    by (simp add: parse_date_eq strptime_date_isoformat)
  then show ?thesis by (simp add: parse_date_eq)
qed

text \<open>
  The theorem on a text naming no calendar day, on a text \<open>strptime\<close> accepts, and on
  the text of 10 December 1815.
\<close>

theorem parse_date_total_witness:
  "strptime_date ''2024-02-30'' = Inl ValueError
   \<and> parse_date ''2024-02-30'' = Inr None
   \<and> ''2024-1-5'' \<noteq> []
   \<and> strptime_date ''2024-1-5'' = Inr \<lparr>year = 2024, month = 1, day = 5\<rparr>
   \<and> parse_date ''2024-1-5'' = Inr (Some \<lparr>year = 2024, month = 1, day = 5\<rparr>)
   \<and> valid_date \<lparr>year = 1815, month = 12, day = 10\<rparr>
   \<and> parse_date (isoformat \<lparr>year = 1815, month = 12, day = 10\<rparr>)
       = Inr (Some \<lparr>year = 1815, month = 12, day = 10\<rparr>)"
proof -
  have a: "strptime_date ''2024-02-30'' = Inl ValueError" by code_simp
  have b: "strptime_date ''2024-1-5'' = Inr \<lparr>year = 2024, month = 1, day = 5\<rparr>" by code_simp
  have c: "valid_date \<lparr>year = 1815, month = 12, day = 10\<rparr>" by code_simp
  show ?thesis
    using parse_date_total [of "''2024-02-30''" ValueError "''2024-1-5''"
        "\<lparr>year = 2024, month = 1, day = 5\<rparr>" "\<lparr>year = 1815, month = 12, day = 10\<rparr>"] a b c
    by simp
qed

subsection \<open>The visits of the detail view\<close>

text \<open>
  The sort of the template raises only \<open>TypeError\<close>, and it does so whenever the visits
  to sort include one without a date and one with a date.
\<close>

lemma key_lt_error: "key_lt a b = Inl e \<Longrightarrow> e = TypeError"
  by (auto simp: key_lt_def split: if_splits option.splits)

lemma key_lt_same_kind: "key_lt a b = Inr r \<Longrightarrow> (a = None) = (b = None)"
  by (auto simp: key_lt_def split: if_splits option.splits)

lemma insert_desc_error: "insert_desc x ys = Inl e \<Longrightarrow> e = TypeError"
  by (induction ys) (auto split: sum.splits bool.splits dest: key_lt_error)

lemma insert_desc_set: "insert_desc x ys = Inr zs \<Longrightarrow> set zs = insert x (set ys)"
proof (induction ys arbitrary: zs)
  case Nil
  then show ?case by auto
next
  case (Cons y ys)
  show ?case
  proof (cases "key_lt (visit_date x) (visit_date y)")
    case (Inl e)
    with Cons.prems show ?thesis by simp
  next
    case (Inr b)
    show ?thesis
    proof (cases b)
      case True
      with Inr Cons.prems obtain zs' where z: "insert_desc x ys = Inr zs'" "zs = y # zs'"
        by (auto split: sum.splits)
      from Cons.IH [OF z(1)] z(2) show ?thesis by auto
    next
      case False
      with Inr Cons.prems show ?thesis by auto
    qed
  qed
qed

lemma insert_desc_head:
  "insert_desc x (y # ys) = Inr zs \<Longrightarrow> (visit_date x = None) = (visit_date y = None)"
  by (auto split: sum.splits dest: key_lt_same_kind)

lemma sort_visits_error: "sort_visits xs = Inl e \<Longrightarrow> e = TypeError"
proof (induction xs)
  case Nil
  then show ?case by simp
next
  case (Cons x xs)
  show ?case
  proof (cases "sort_visits xs")
    case (Inl e')
    with Cons show ?thesis by simp
  next
    case (Inr ys)
    with Cons.prems have "insert_desc x ys = Inl e" by simp
    then show ?thesis by (rule insert_desc_error)
  qed
qed

lemma sort_visits_set: "sort_visits xs = Inr ys \<Longrightarrow> set ys = set xs"
proof (induction xs arbitrary: ys)
  case Nil
  then show ?case by simp
next
  case (Cons x xs)
  then obtain ys' where s: "sort_visits xs = Inr ys'" and i: "insert_desc x ys' = Inr ys"
    by (auto split: sum.splits)
  from insert_desc_set [OF i] Cons.IH [OF s] show ?case by simp
qed

lemma sort_visits_same_kind:
  "sort_visits xs = Inr ys \<Longrightarrow> v \<in> set xs \<Longrightarrow> w \<in> set xs \<Longrightarrow>
   (visit_date v = None) = (visit_date w = None)"
proof (induction xs arbitrary: ys v w)
  case Nil
  then show ?case by simp
next
  case (Cons x xs)
  then obtain ys' where s: "sort_visits xs = Inr ys'" and i: "insert_desc x ys' = Inr ys"
    by (auto split: sum.splits)
  have tail: "(visit_date a = None) = (visit_date b = None)"
    if "a \<in> set xs" "b \<in> set xs" for a b
    using Cons.IH [OF s that] .
  have hd: "(visit_date x = None) = (visit_date a = None)" if "a \<in> set xs" for a
  proof (cases ys')
    case Nil
    with sort_visits_set [OF s] that show ?thesis by simp
  next
    case (Cons y ys'')
    with sort_visits_set [OF s] have "y \<in> set xs" by auto
    moreover have "(visit_date x = None) = (visit_date y = None)"
      using i unfolding Cons by (rule insert_desc_head)
    ultimately show ?thesis using tail [OF \<open>y \<in> set xs\<close> that] by simp
  qed
  from Cons.prems(2,3) have "v = x \<or> v \<in> set xs" "w = x \<or> w \<in> set xs" by simp_all
  then show ?case
  proof (elim disjE)
    assume "v = x" "w = x"
    then show ?thesis by simp
  next
    assume "v = x" "w \<in> set xs"
    then show ?thesis using hd by simp
  next
    assume "v \<in> set xs" "w = x"
    then show ?thesis using hd by simp
  next
    assume "v \<in> set xs" "w \<in> set xs"
    then show ?thesis by (rule tail)
  qed
qed

lemma sort_visits_mixed_dates:
  assumes "v \<in> set xs" "w \<in> set xs" "visit_date v = None" "visit_date w \<noteq> None"
  shows "sort_visits xs = Inl TypeError"
proof (cases "sort_visits xs")
  case (Inl e)
  then show ?thesis using sort_visits_error by blast
next
  case (Inr ys)
  from sort_visits_same_kind [OF Inr assms(1) assms(2)] assms(3,4) show ?thesis by simp
qed

text \<open>
  Claim C5. The claim says that the detail view shows the visits by date, most recent
  first, a visit without a date counting as the earliest, and never fails. On the example
  clinic patient 7 has one visit without a date and one dated 30 November 2023. The detail
  view ends in \<open>TemplateNotFound\<close> instead of a page, and with a loader that finds
  \<open>base\<close> the detail template ends in \<open>TypeError\<close> when it sorts these visits.
\<close>

theorem patient_detail_absent_visit_date_fails:
  "patient_detail 7 clinic = (clinic, ServerError TemplateNotFound)
   \<and> render_patient_detail loader_with_base ada
        (visits_of clinic ada) (medications_of clinic ada) (allergies_of clinic ada)
       = Inl TypeError"
  by code_simp

end
